theory Spec2Isabelle
  imports Complex_Main
begin

section \<open>Fake News Detector: the inference and history flow of app.py\<close>

text \<open>
  The application is a Streamlit script that is run from top to bottom on every user
  interaction. This theory embeds the parts of it that carry data: the artifact loader
  \<open>load_models\<close>, the inference function \<open>predict_news\<close>, the handler of the
  "Check Authenticity" button, and the "Recent Checks" section. Static page chrome (page
  configuration, style sheet, header, info card, footer) carries no data and is left out;
  the percentage formatting of the confidence is left out as well.

  Everything the code does besides returning a value is written into a log of effects:
  calls to the two artifacts with what they answered, and the Streamlit calls that show
  something to the user.
\<close>

subsection \<open>Python values\<close>

text \<open>
  A Python \<open>str\<close> is a sequence of Unicode code points, so it is a list of naturals here.
  String literals of the source are written with \<open>lit\<close>.
\<close>

type_synonym py_str = "nat list"

definition lit :: "string \<Rightarrow> py_str" where
  "lit s = map of_char s"

text \<open>
  \<open>str.isspace\<close> for one code point, as CPython's Unicode database has it, and
  \<open>str.strip()\<close> with no argument, which removes leading and trailing whitespace.
\<close>

definition isspace :: "nat \<Rightarrow> bool" where
  "isspace c = ((9 \<le> c \<and> c \<le> 13) \<or> (28 \<le> c \<and> c \<le> 32) \<or> c = 133 \<or> c = 160
     \<or> c = 5760 \<or> (8192 \<le> c \<and> c \<le> 8202) \<or> c = 8232 \<or> c = 8233 \<or> c = 8239
     \<or> c = 8287 \<or> c = 12288)"

definition strip :: "py_str \<Rightarrow> py_str" where
  "strip s = rev (dropWhile isspace (rev (dropWhile isspace s)))"

text \<open>
  The exceptions of the model are instances of Python's \<open>Exception\<close>, the class both
  \<open>except\<close> clauses of the source catch: \<open>IndexError\<close> is what indexing out of range
  raises, \<open>Exception msg\<close> is any other one, with \<open>msg\<close> what \<open>str(e)\<close> gives.
\<close>

datatype exn = IndexError | Exception py_str

text \<open>Indexing \<open>xs[i]\<close> with a literal index \<open>i \<ge> 0\<close>.\<close>

definition getitem :: "'a list \<Rightarrow> nat \<Rightarrow> exn + 'a" where
  "getitem xs i = (if i < length xs then Inr (xs ! i) else Inl IndexError)"

subsection \<open>Artifacts\<close>

text \<open>
  The two artifacts are opaque objects; the script only calls \<open>vectorizer.transform\<close>,
  \<open>model.predict\<close> and \<open>model.predict_proba\<close>, each of which returns or raises. \<open>'v\<close> is
  the type of feature matrices. \<open>predict\<close> returns an array of class indices and
  \<open>predict_proba\<close> an array of rows of floats. The script does no arithmetic on the
  floats on the inference path (it only stores them), so they are reals here.
\<close>

record 'v classifier =
  predict :: "'v \<Rightarrow> exn + int list"
  predict_proba :: "'v \<Rightarrow> exn + real list list"

record 'v vectorizer =
  transform :: "py_str list \<Rightarrow> exn + 'v"

text \<open>
  What \<open>joblib.load\<close> gives for each of the two file names: an exception, or the
  unpickled object, which may be Python's \<open>None\<close>.
\<close>

record 'v storage =
  ensemble_fake_news_model_pkl :: "exn + 'v classifier option"
  tfidf_vectorizer_pkl :: "exn + 'v vectorizer option"

subsection \<open>Results, history entries, session state\<close>

text \<open>The dictionary \<open>predict_news\<close> returns; the key \<open>prediction\<close> holds the label.\<close>

record PredictionResult =
  prediction :: py_str
  confidence :: real
  probabilities :: "real list"

text \<open>The dictionary appended to the history: keys \<open>text\<close> and \<open>result\<close>.\<close>

record entry =
  h_text :: py_str
  h_result :: PredictionResult

text \<open>\<open>st.session_state\<close>: the key \<open>history\<close> is absent (\<open>None\<close>) or holds a list.\<close>

record session_state =
  history :: "entry list option"

subsection \<open>Effects\<close>

datatype message =
    Error_loading_model_files exn
  | Prediction_error exn
  | Model_files_not_found
  | Please_enter_some_text

datatype 'v effect =
    Joblib_load py_str
  | Vectorizer_transform "py_str list" "exn + 'v"
  | Model_predict 'v "exn + int list"
  | Model_predict_proba 'v "exn + real list list"
  | St_error message
  | St_warning message
  | St_spinner
  | St_result_box PredictionResult
  | St_bar_chart real real
  | St_recent_checks
  | St_expander py_str entry

fun is_inference :: "'v effect \<Rightarrow> bool" where
  "is_inference (Vectorizer_transform a r) = True"
| "is_inference (Model_predict v r) = True"
| "is_inference (Model_predict_proba v r) = True"
| "is_inference e = False"

fun is_st_error :: "'v effect \<Rightarrow> bool" where
  "is_st_error (St_error m) = True"
| "is_st_error e = False"

fun is_expander :: "'v effect \<Rightarrow> bool" where
  "is_expander (St_expander ttl item) = True"
| "is_expander e = False"

subsection \<open>The artifact loader (lines 58-66)\<close>

definition load_models ::
  "'v storage \<Rightarrow> ('v classifier option \<times> 'v vectorizer option) \<times> 'v effect list" where
  "load_models fs =
     (case ensemble_fake_news_model_pkl fs of
        Inl e \<Rightarrow>
          ((None, None),
           [Joblib_load (lit ''ensemble_fake_news_model.pkl''),
            St_error (Error_loading_model_files e)])
      | Inr model \<Rightarrow>
          (case tfidf_vectorizer_pkl fs of
             Inl e \<Rightarrow>
               ((None, None),
                [Joblib_load (lit ''ensemble_fake_news_model.pkl''),
                 Joblib_load (lit ''tfidf_vectorizer.pkl''),
                 St_error (Error_loading_model_files e)])
           | Inr vectorizer \<Rightarrow>
               ((model, vectorizer),
                [Joblib_load (lit ''ensemble_fake_news_model.pkl''),
                 Joblib_load (lit ''tfidf_vectorizer.pkl'')])))"

subsection \<open>Inference (lines 69-88)\<close>

text \<open>
  The body of the \<open>try\<close> block: it ends with the dictionary or with the first exception
  raised, and logs every artifact call made on the way. The conditional expression for
  the confidence evaluates only the branch it selects.
\<close>

definition predict_news_try ::
  "py_str \<Rightarrow> 'v classifier \<Rightarrow> 'v vectorizer \<Rightarrow> (exn + PredictionResult) \<times> 'v effect list" where
  "predict_news_try news_text model vectorizer =
     (let r1 = transform vectorizer [news_text];
          out1 = [Vectorizer_transform [news_text] r1]
      in case r1 of
        Inl e \<Rightarrow> (Inl e, out1)
      | Inr news_vector \<Rightarrow>
          (let r2 = predict model news_vector;
               out2 = out1 @ [Model_predict news_vector r2]
           in case r2 of
             Inl e \<Rightarrow> (Inl e, out2)
           | Inr labels \<Rightarrow>
               (case getitem labels 0 of
                  Inl e \<Rightarrow> (Inl e, out2)
                | Inr pred \<Rightarrow>
                    (let r3 = predict_proba model news_vector;
                         out3 = out2 @ [Model_predict_proba news_vector r3]
                     in case r3 of
                       Inl e \<Rightarrow> (Inl e, out3)
                     | Inr rows \<Rightarrow>
                         (case getitem rows 0 of
                            Inl e \<Rightarrow> (Inl e, out3)
                          | Inr probs \<Rightarrow>
                              (case (if pred = 1 then getitem probs 1 else getitem probs 0) of
                                 Inl e \<Rightarrow> (Inl e, out3)
                               | Inr conf \<Rightarrow>
                                   (Inr \<lparr>prediction = (if pred = 1 then lit ''REAL'' else lit ''FAKE''),
                                         confidence = conf,
                                         probabilities = probs\<rparr>,
                                    out3)))))))"

text \<open>The \<open>except Exception\<close> clause: report the error and return \<open>None\<close>.\<close>

definition predict_news ::
  "py_str \<Rightarrow> 'v classifier \<Rightarrow> 'v vectorizer \<Rightarrow> PredictionResult option \<times> 'v effect list" where
  "predict_news news_text model vectorizer =
     (case predict_news_try news_text model vectorizer of
        (Inl e, out) \<Rightarrow> (None, out @ [St_error (Prediction_error e)])
      | (Inr res, out) \<Rightarrow> (Some res, out))"

subsection \<open>The history buffer and its display (lines 119-121, 133-136, 184-189)\<close>

text \<open>\<open>list.append\<close>.\<close>

definition history_append :: "entry list \<Rightarrow> entry \<Rightarrow> entry list" where
  "history_append h item = h @ [item]"

text \<open>The slice \<open>xs[-5:]\<close>: the last five elements, or all of them when there are fewer.\<close>

definition last5 :: "'a list \<Rightarrow> 'a list" where
  "last5 xs = drop (length xs - 5) xs"

text \<open>The iteration of the display loop: \<open>reversed(history[-5:])\<close>.\<close>

definition recent_checks :: "entry list \<Rightarrow> entry list" where
  "recent_checks h = rev (last5 h)"

definition expander_title :: "entry \<Rightarrow> py_str" where
  "expander_title item =
     prediction (h_result item) @ lit '': '' @ take 50 (h_text item) @ lit ''...''"

definition history_section :: "entry list \<Rightarrow> 'v effect list" where
  "history_section h =
     (if h \<noteq> [] then
        St_recent_checks # map (\<lambda>item. St_expander (expander_title item) item) (recent_checks h)
      else [])"

subsection \<open>One run of the script after loading (lines 104-200)\<close>

text \<open>The list held under the key \<open>history\<close> once lines 120-121 have run.\<close>

definition history_list :: "session_state \<Rightarrow> entry list" where
  "history_list ss = (case history ss of None \<Rightarrow> [] | Some h \<Rightarrow> h)"

text \<open>
  The button handler of lines 124-163 on the history list. It returns the list, the
  effects and the exception that leaves the script uncaught, if any: the chart reads
  \<open>probabilities[0]\<close> and \<open>probabilities[1]\<close> outside every \<open>try\<close>.
\<close>

definition analyze ::
  "'v classifier \<Rightarrow> 'v vectorizer \<Rightarrow> py_str \<Rightarrow> bool \<Rightarrow> entry list \<Rightarrow>
     entry list \<times> 'v effect list \<times> exn option" where
  "analyze model vectorizer news_text analyze_button h =
     (if analyze_button then
        (if strip news_text = [] then (h, [St_warning Please_enter_some_text], None)
         else
           (case predict_news news_text model vectorizer of
              (None, out) \<Rightarrow> (h, St_spinner # out, None)
            | (Some res, out) \<Rightarrow>
                (let h' = history_append h \<lparr>h_text = news_text, h_result = res\<rparr>;
                     out' = St_spinner # out @ [St_result_box res]
                 in case getitem (probabilities res) 0 of
                      Inl e \<Rightarrow> (h', out', Some e)
                    | Inr p0 \<Rightarrow>
                        (case getitem (probabilities res) 1 of
                           Inl e \<Rightarrow> (h', out', Some e)
                         | Inr p1 \<Rightarrow> (h', out' @ [St_bar_chart p0 p1], None)))))
      else (h, [], None))"

text \<open>
  The script from line 104 on, given what \<open>load_models\<close> returned, the content of the
  text area, whether the button was clicked, and the session state.
\<close>

definition app ::
  "'v classifier option \<times> 'v vectorizer option \<Rightarrow> py_str \<Rightarrow> bool \<Rightarrow> session_state \<Rightarrow>
     session_state \<times> 'v effect list \<times> exn option" where
  "app artifacts news_text analyze_button ss =
     (case artifacts of
        (Some model, Some vectorizer) \<Rightarrow>
          (case analyze model vectorizer news_text analyze_button (history_list ss) of
             (h, out, Some e) \<Rightarrow> (ss\<lparr>history := Some h\<rparr>, out, Some e)
           | (h, out, None) \<Rightarrow> (ss\<lparr>history := Some h\<rparr>, out @ history_section h, None))
      | _ \<Rightarrow> (ss, [St_error Model_files_not_found], None))"

text \<open>The whole run: load the artifacts, then the rest.\<close>

definition script ::
  "'v storage \<Rightarrow> py_str \<Rightarrow> bool \<Rightarrow> session_state \<Rightarrow> session_state \<times> 'v effect list \<times> exn option" where
  "script fs news_text analyze_button ss =
     (case load_models fs of
        (artifacts, out0) \<Rightarrow>
          (case app artifacts news_text analyze_button ss of
             (ss', out, ex) \<Rightarrow> (ss', out0 @ out, ex)))"

subsection \<open>Stub artifacts and inputs of the scenarios\<close>

text \<open>
  The scenarios of the specification name two headlines and what the classifier answers
  for them. The stubs below are such artifacts: a vectorizer that hands the texts on as
  the feature matrix, and a classifier that answers index 1 with probabilities
  \<open>[0.08, 0.92]\<close> for the first headline and index 0 with \<open>[0.77, 0.23]\<close> otherwise.
  Further stubs: a three-class classifier, a classifier whose \<open>predict\<close> raises, one
  whose \<open>predict_proba\<close> raises, one that answers an empty row, a storage without the
  model file, a headline with surrounding blanks, a text of
  whitespace only, and an entry already in the history.
\<close>

definition headline_real :: py_str where
  "headline_real = lit ''Scientists confirm vaccine safety''"

definition headline_fake :: py_str where
  "headline_fake = lit ''Aliens built the pyramids''"

definition scenario_vectorizer :: "py_str list vectorizer" where
  "scenario_vectorizer = \<lparr>transform = (\<lambda>texts. Inr texts)\<rparr>"

definition scenario_model :: "py_str list classifier" where
  "scenario_model =
     \<lparr>predict = (\<lambda>v. if v = [headline_real] then Inr [1] else Inr [0]),
      predict_proba = (\<lambda>v. if v = [headline_real] then Inr [[0.08, 0.92]] else Inr [[0.77, 0.23]])\<rparr>"

definition multiclass_model :: "py_str list classifier" where
  "multiclass_model =
     \<lparr>predict = (\<lambda>v. Inr [2]), predict_proba = (\<lambda>v. Inr [[0.2, 0.3, 0.5]])\<rparr>"

definition failing_model :: "py_str list classifier" where
  "failing_model =
     \<lparr>predict = (\<lambda>v. Inl (Exception (lit ''shape mismatch''))),
      predict_proba = (\<lambda>v. Inr [[0.5, 0.5]])\<rparr>"

definition missing_storage :: "py_str list storage" where
  "missing_storage =
     \<lparr>ensemble_fake_news_model_pkl = Inl (Exception (lit ''No such file or directory'')),
      tfidf_vectorizer_pkl = Inr (Some scenario_vectorizer)\<rparr>"

definition padded_headline :: py_str where
  "padded_headline = lit ''  Aliens built the pyramids ''"

definition no_proba_model :: "py_str list classifier" where
  "no_proba_model =
     \<lparr>predict = (\<lambda>v. Inr [2]),
      predict_proba = (\<lambda>v. Inl (Exception (lit ''predict_proba is not available'')))\<rparr>"

definition empty_row_model :: "py_str list classifier" where
  "empty_row_model = \<lparr>predict = (\<lambda>v. Inr [0]), predict_proba = (\<lambda>v. Inr [[]])\<rparr>"

definition blank_text :: py_str where
  "blank_text = [32, 9, 10, 160, 12288]"

definition earlier_entry :: entry where
  "earlier_entry =
     \<lparr>h_text = headline_fake,
      h_result = \<lparr>prediction = lit ''FAKE'', confidence = 0.77, probabilities = [0.77, 0.23]\<rparr>\<rparr>"

section \<open>Properties\<close>

subsection \<open>Auxiliary facts\<close>

text \<open>The two labels are different strings.\<close>

lemma lit_labels: "lit ''REAL'' \<noteq> lit ''FAKE''"
  by (simp add: lit_def)

text \<open>
  The five ways the \<open>try\<close> block can go, each with its log: \<open>transform\<close> raises;
  \<open>predict\<close> raises; \<open>predict\<close> returns an empty array; \<open>predict_proba\<close> raises;
  all three calls return, and then the outcome depends on the rows only.
\<close>

lemma predict_news_try_cases:
  assumes that: "predict_news_try t m vz = (res, out)"
  shows "(\<exists>e. transform vz [t] = Inl e \<and> res = Inl e \<and> out = [Vectorizer_transform [t] (Inl e)])
 \<or> (\<exists>v e. transform vz [t] = Inr v \<and> predict m v = Inl e \<and> res = Inl e
        \<and> out = [Vectorizer_transform [t] (Inr v), Model_predict v (Inl e)])
 \<or> (\<exists>v. transform vz [t] = Inr v \<and> predict m v = Inr [] \<and> res = Inl IndexError
        \<and> out = [Vectorizer_transform [t] (Inr v), Model_predict v (Inr [])])
 \<or> (\<exists>v i is e. transform vz [t] = Inr v \<and> predict m v = Inr (i # is) \<and> predict_proba m v = Inl e
        \<and> res = Inl e
        \<and> out = [Vectorizer_transform [t] (Inr v), Model_predict v (Inr (i # is)),
                  Model_predict_proba v (Inl e)])
 \<or> (\<exists>v i is rows. transform vz [t] = Inr v \<and> predict m v = Inr (i # is)
        \<and> predict_proba m v = Inr rows
        \<and> out = [Vectorizer_transform [t] (Inr v), Model_predict v (Inr (i # is)),
                  Model_predict_proba v (Inr rows)]
        \<and> res = (case rows of [] \<Rightarrow> Inl IndexError
                  | probs # _ \<Rightarrow>
                     (if i = 1 then
                        (if 1 < length probs then Inr \<lparr>prediction = lit ''REAL'', confidence = probs ! 1, probabilities = probs\<rparr>
                         else Inl IndexError)
                      else
                        (if probs \<noteq> [] then Inr \<lparr>prediction = lit ''FAKE'', confidence = probs ! 0, probabilities = probs\<rparr>
                         else Inl IndexError))))"
proof (cases "transform vz [t]")
  case (Inl e)
  then show ?thesis using that by (simp add: predict_news_try_def)
next
  case tr: (Inr nv)
  show ?thesis
  proof (cases "predict m nv")
    case (Inl e)
    then show ?thesis using that tr by (simp add: predict_news_try_def)
  next
    case pr: (Inr labels)
    show ?thesis
    proof (cases labels)
      case Nil
      then show ?thesis using that tr pr by (simp add: predict_news_try_def getitem_def)
    next
      case lb: (Cons i "is")
      show ?thesis
      proof (cases "predict_proba m nv")
        case (Inl e)
        then show ?thesis using that tr pr lb by (simp add: predict_news_try_def getitem_def)
      next
        case pp: (Inr rows)
        show ?thesis
        proof (cases rows)
          case Nil
          then show ?thesis using that tr pr lb pp
            by (simp add: predict_news_try_def getitem_def)
        next
          case (Cons probs rest)
          then show ?thesis using that tr pr lb pp
            by (auto simp add: predict_news_try_def getitem_def)
        qed
      qed
    qed
  qed
qed

lemma predict_news_unfold:
  "predict_news t m vz = (res, out) \<Longrightarrow>
   \<exists>r0 out0. predict_news_try t m vz = (r0, out0) \<and>
     ((\<exists>e. r0 = Inl e \<and> res = None \<and> out = out0 @ [St_error (Prediction_error e)])
      \<or> (\<exists>r. r0 = Inr r \<and> res = Some r \<and> out = out0))"
  unfolding predict_news_def by (auto split: prod.splits sum.splits)

text \<open>
  What \<open>predict_news\<close> returns and logs once the three artifact calls have answered:
  only the index read from the row can still fail.
\<close>

lemma predict_news_answered:
  assumes "transform vz [t] = Inr v"
    and "predict m v = Inr (i # is)"
    and "predict_proba m v = Inr (probs # rows)"
  shows "predict_news t m vz =
           (if i = 1 then
              (if 1 < length probs then
                 (Some \<lparr>prediction = lit ''REAL'', confidence = probs ! 1, probabilities = probs\<rparr>,
                  [Vectorizer_transform [t] (Inr v), Model_predict v (Inr (i # is)),
                   Model_predict_proba v (Inr (probs # rows))])
               else
                 (None,
                  [Vectorizer_transform [t] (Inr v), Model_predict v (Inr (i # is)),
                   Model_predict_proba v (Inr (probs # rows)),
                   St_error (Prediction_error IndexError)]))
            else
              (if probs \<noteq> [] then
                 (Some \<lparr>prediction = lit ''FAKE'', confidence = probs ! 0, probabilities = probs\<rparr>,
                  [Vectorizer_transform [t] (Inr v), Model_predict v (Inr (i # is)),
                   Model_predict_proba v (Inr (probs # rows))])
               else
                 (None,
                  [Vectorizer_transform [t] (Inr v), Model_predict v (Inr (i # is)),
                   Model_predict_proba v (Inr (probs # rows)),
                   St_error (Prediction_error IndexError)])))"
  using assms by (simp add: predict_news_def predict_news_try_def getitem_def)

text \<open>\<open>strip\<close> leaves nothing exactly when every character is whitespace.\<close>

lemma strip_eq_Nil_iff: "(strip s = []) = list_all isspace s"
proof -
  have "(strip s = []) = (dropWhile isspace (rev (dropWhile isspace s)) = [])"
    by (simp add: strip_def)
  also have "\<dots> = (\<forall>c \<in> set (dropWhile isspace s). isspace c)"
    by (simp only: dropWhile_eq_Nil_conv set_rev)
  also have "\<dots> = (dropWhile isspace s = [])"
  proof
    assume a: "\<forall>c \<in> set (dropWhile isspace s). isspace c"
    show "dropWhile isspace s = []"
    proof (rule ccontr)
      assume n: "dropWhile isspace s \<noteq> []"
      then have "\<not> isspace (hd (dropWhile isspace s))" by (rule hd_dropWhile)
      moreover have "hd (dropWhile isspace s) \<in> set (dropWhile isspace s)"
        using n by (rule hd_in_set)
      ultimately show False using a by blast
    qed
  next
    assume e: "dropWhile isspace s = []"
    show "\<forall>c \<in> set (dropWhile isspace s). isspace c" unfolding e by simp
  qed
  also have "\<dots> = list_all isspace s"
    by (simp add: dropWhile_eq_Nil_conv list_all_iff)
  finally show ?thesis .
qed

lemma foldl_history_append: "foldl history_append h es = h @ es"
  by (induction es arbitrary: h) (simp_all add: history_append_def)

lemma last5_rev: "rev (last5 xs) = take 5 (rev xs)"
proof -
  have "rev (last5 xs) = take (length xs - (length xs - 5)) (rev xs)"
    unfolding last5_def by (rule rev_drop)
  also have "\<dots> = take 5 (rev xs)"
    by (cases "5 \<le> length xs") simp_all
  finally show ?thesis .
qed

lemma history_section_quiet:
  "filter is_inference (history_section h) = [] \<and> filter is_st_error (history_section h) = []"
proof -
  have "filter is_inference (map (\<lambda>item. St_expander (expander_title item) item) xs) = []
      \<and> filter is_st_error (map (\<lambda>item. St_expander (expander_title item) item) xs) = []" for xs
    by (induction xs) simp_all
  then show ?thesis by (simp add: history_section_def)
qed

lemma history_list_update [simp]: "history_list (ss\<lparr>history := Some h\<rparr>) = h"
  by (simp add: history_list_def)

lemma load_models_quiet: "filter is_inference (snd (load_models fs)) = []"
  by (simp add: load_models_def split: sum.splits)


lemma analyze_appends:
  "strip t \<noteq> [] \<Longrightarrow> predict_news t m vz = (Some r, out) \<Longrightarrow>
   fst (analyze m vz t True h) = h @ [\<lparr>h_text = t, h_result = r\<rparr>]"
  by (simp add: analyze_def history_append_def Let_def split: sum.splits)

lemma analyze_history:
  "fst (analyze m vz t b h) = h
   \<or> (\<exists>r out. b \<and> strip t \<noteq> [] \<and> predict_news t m vz = (Some r, out)
         \<and> fst (analyze m vz t b h) = h @ [\<lparr>h_text = t, h_result = r\<rparr>])"
  by (cases "predict_news t m vz")
     (auto simp add: analyze_def history_append_def Let_def split: sum.splits option.splits)

lemma app_history:
  "history_list (fst (app (Some m, Some vz) t b ss)) = fst (analyze m vz t b (history_list ss))"
  by (cases "analyze m vz t b (history_list ss)")
     (auto simp add: app_def split: option.splits)

text \<open>The stubs, run.\<close>

lemma headlines_differ: "headline_fake \<noteq> headline_real"
  by (simp add: headline_fake_def headline_real_def lit_def)

lemma scenario_real_run:
  "predict_news headline_real scenario_model scenario_vectorizer =
     (Some \<lparr>prediction = lit ''REAL'', confidence = 0.92, probabilities = [0.08, 0.92]\<rparr>,
      [Vectorizer_transform [headline_real] (Inr [headline_real]),
       Model_predict [headline_real] (Inr [1]),
       Model_predict_proba [headline_real] (Inr [[0.08, 0.92]])])"
  by (simp add: predict_news_def predict_news_try_def getitem_def scenario_model_def
      scenario_vectorizer_def)

lemma scenario_fake_run:
  "predict_news headline_fake scenario_model scenario_vectorizer =
     (Some \<lparr>prediction = lit ''FAKE'', confidence = 0.77, probabilities = [0.77, 0.23]\<rparr>,
      [Vectorizer_transform [headline_fake] (Inr [headline_fake]),
       Model_predict [headline_fake] (Inr [0]),
       Model_predict_proba [headline_fake] (Inr [[0.77, 0.23]])])"
  by (simp add: predict_news_def predict_news_try_def getitem_def scenario_model_def
      scenario_vectorizer_def headlines_differ)

lemma multiclass_run:
  "predict_news headline_real multiclass_model scenario_vectorizer =
     (Some \<lparr>prediction = lit ''FAKE'', confidence = 0.2, probabilities = [0.2, 0.3, 0.5]\<rparr>,
      [Vectorizer_transform [headline_real] (Inr [headline_real]),
       Model_predict [headline_real] (Inr [2]),
       Model_predict_proba [headline_real] (Inr [[0.2, 0.3, 0.5]])])"
  by (simp add: predict_news_def predict_news_try_def getitem_def multiclass_model_def
      scenario_vectorizer_def)

lemma failing_run:
  "predict_news headline_real failing_model scenario_vectorizer =
     (None,
      [Vectorizer_transform [headline_real] (Inr [headline_real]),
       Model_predict [headline_real] (Inl (Exception (lit ''shape mismatch''))),
       St_error (Prediction_error (Exception (lit ''shape mismatch'')))])"
  by (simp add: predict_news_def predict_news_try_def getitem_def failing_model_def
      scenario_vectorizer_def)

lemma no_proba_run:
  "predict_news headline_real no_proba_model scenario_vectorizer =
     (None,
      [Vectorizer_transform [headline_real] (Inr [headline_real]),
       Model_predict [headline_real] (Inr [2]),
       Model_predict_proba [headline_real]
         (Inl (Exception (lit ''predict_proba is not available''))),
       St_error (Prediction_error (Exception (lit ''predict_proba is not available'')))])"
  by (simp add: predict_news_def predict_news_try_def getitem_def no_proba_model_def
      scenario_vectorizer_def)

lemma empty_row_run:
  "predict_news headline_fake empty_row_model scenario_vectorizer =
     (None,
      [Vectorizer_transform [headline_fake] (Inr [headline_fake]),
       Model_predict [headline_fake] (Inr [0]),
       Model_predict_proba [headline_fake] (Inr [[]]),
       St_error (Prediction_error IndexError)])"
  by (simp add: predict_news_def predict_news_try_def getitem_def empty_row_model_def
      scenario_vectorizer_def)

lemma strip_padded: "strip padded_headline = headline_fake"
  by (simp add: strip_def padded_headline_def headline_fake_def lit_def isspace_def)


lemma strip_blank: "strip blank_text = []"
  by (simp add: strip_def blank_text_def isspace_def)

lemma padded_differs: "padded_headline \<noteq> headline_real"
  by (simp add: padded_headline_def headline_real_def lit_def)

lemma padded_run:
  "predict_news padded_headline scenario_model scenario_vectorizer =
     (Some \<lparr>prediction = lit ''FAKE'', confidence = 0.77, probabilities = [0.77, 0.23]\<rparr>,
      [Vectorizer_transform [padded_headline] (Inr [padded_headline]),
       Model_predict [padded_headline] (Inr [0]),
       Model_predict_proba [padded_headline] (Inr [[0.77, 0.23]])])"
  by (simp add: predict_news_def predict_news_try_def getitem_def scenario_model_def
      scenario_vectorizer_def padded_differs)

lemma strip_padded_neq: "strip padded_headline \<noteq> [] \<and> strip padded_headline \<noteq> padded_headline"
  by (simp add: strip_padded) (simp add: padded_headline_def headline_fake_def lit_def)

subsection \<open>The claims\<close>

text \<open>
  Claim C1. In an inference call in which the vectorizer returned the matrix \<open>v\<close>, the
  classifier's \<open>predict\<close> answered the index \<open>i\<close> for \<open>v\<close>, and a result \<open>r\<close> is
  returned, the label of \<open>r\<close> is "REAL" exactly when \<open>i = 1\<close> and "FAKE" exactly when
  \<open>i \<noteq> 1\<close>, so "FAKE" for index 0.
\<close>

theorem predict_news_label_iff_index:
  assumes "transform vz [t] = Inr v"
    and "predict m v = Inr (i # is)"
    and "predict_news t m vz = (Some r, out)"
  shows "(prediction r = lit ''REAL'') = (i = 1) \<and> (prediction r = lit ''FAKE'') = (i \<noteq> 1)"
  using assms lit_labels
  by (auto dest!: predict_news_unfold predict_news_try_cases split: list.splits if_splits)

theorem predict_news_label_iff_index_witness:
  "transform scenario_vectorizer [headline_real] = Inr [headline_real]
   \<and> predict scenario_model [headline_real] = Inr [1]
   \<and> (\<exists>r out. predict_news headline_real scenario_model scenario_vectorizer = (Some r, out)
         \<and> prediction r = lit ''REAL'' \<and> prediction r \<noteq> lit ''FAKE'')
   \<and> transform scenario_vectorizer [headline_fake] = Inr [headline_fake]
   \<and> predict scenario_model [headline_fake] = Inr [0]
   \<and> (\<exists>r out. predict_news headline_fake scenario_model scenario_vectorizer = (Some r, out)
         \<and> prediction r = lit ''FAKE'' \<and> prediction r \<noteq> lit ''REAL'')"
proof -
  have a: "transform scenario_vectorizer [headline_real] = Inr [headline_real]"
    by (simp add: scenario_vectorizer_def)
  have b: "predict scenario_model [headline_real] = Inr [1]"
    by (simp add: scenario_model_def)
  have c: "transform scenario_vectorizer [headline_fake] = Inr [headline_fake]"
    by (simp add: scenario_vectorizer_def)
  have d: "predict scenario_model [headline_fake] = Inr [0]"
    by (simp add: scenario_model_def headlines_differ)
  show ?thesis
    using predict_news_label_iff_index [OF a b scenario_real_run] predict_news_label_iff_index [OF c d scenario_fake_run]
      a b c d scenario_real_run scenario_fake_run
    by simp
qed

text \<open>
  Claim C2. For every successful inference, the confidence of the result is
  \<open>probabilities[1]\<close> when the label is "REAL" and \<open>probabilities[0]\<close> when it is "FAKE",
  the index read exists in the row, and there is no third label.
\<close>

theorem predict_news_confidence_of_predicted_class:
  assumes "predict_news t m vz = (Some r, out)"
  shows "(prediction r = lit ''REAL'' \<longrightarrow>
            1 < length (probabilities r) \<and> confidence r = probabilities r ! 1)
       \<and> (prediction r = lit ''FAKE'' \<longrightarrow>
            0 < length (probabilities r) \<and> confidence r = probabilities r ! 0)
       \<and> (prediction r = lit ''REAL'' \<or> prediction r = lit ''FAKE'')"
  using assms lit_labels
  by (auto dest!: predict_news_unfold predict_news_try_cases split: list.splits if_splits)

theorem predict_news_confidence_of_predicted_class_witness:
  "\<exists>r out. predict_news headline_fake scenario_model scenario_vectorizer = (Some r, out)
     \<and> prediction r = lit ''FAKE'' \<and> confidence r = probabilities r ! 0
     \<and> confidence r = 0.77"
  using predict_news_confidence_of_predicted_class [OF scenario_fake_run] scenario_fake_run
  by simp

text \<open>
  Claim C3. Appending the entries \<open>es\<close> (any number \<open>k\<close> of them) one by one to the empty
  history leaves all of them stored in insertion order; the display loop then runs over
  the first five entries of the reversed list, which are \<open>min k 5\<close> entries, most recent
  first, and these are the expanders the "Recent Checks" section shows.
\<close>

theorem recent_checks_after_appends:
  "foldl history_append [] es = es
   \<and> recent_checks (foldl history_append [] es) = take 5 (rev es)
   \<and> length (recent_checks (foldl history_append [] es)) = min (length es) 5
   \<and> filter is_expander (history_section (foldl history_append [] es)) =
       map (\<lambda>item. St_expander (expander_title item) item) (take 5 (rev es))"
proof -
  have a: "foldl history_append [] es = es" by (simp add: foldl_history_append)
  have b: "recent_checks es = take 5 (rev es)" by (simp add: recent_checks_def last5_rev)
  have c: "filter is_expander (map (\<lambda>item. St_expander (expander_title item) item) xs)
           = map (\<lambda>item. St_expander (expander_title item) item) xs" for xs
    by (induction xs) simp_all
  have d: "filter is_expander (history_section es) =
       map (\<lambda>item. St_expander (expander_title item) item) (take 5 (rev es))"
    by (simp add: history_section_def b c)
  show ?thesis using a b d by (simp add: min.commute)
qed

text \<open>Six submissions: the display shows the sixth down to the second, the first stays stored.\<close>

theorem recent_checks_after_appends_witness:
  "\<forall>e1 e2 e3 e4 e5 e6.
     foldl history_append [] [e1, e2, e3, e4, e5, e6] = [e1, e2, e3, e4, e5, e6]
     \<and> recent_checks (foldl history_append [] [e1, e2, e3, e4, e5, e6]) = [e6, e5, e4, e3, e2]"
proof (intro allI)
  fix e1 e2 e3 e4 e5 e6 :: entry
  have t: "take 5 (rev [e1, e2, e3, e4, e5, e6]) = [e6, e5, e4, e3, e2]"
    by (simp add: numeral_eq_Suc)
  show "foldl history_append [] [e1, e2, e3, e4, e5, e6] = [e1, e2, e3, e4, e5, e6]
     \<and> recent_checks (foldl history_append [] [e1, e2, e3, e4, e5, e6]) = [e6, e5, e4, e3, e2]"
    using recent_checks_after_appends [of "[e1, e2, e3, e4, e5, e6]"]
    unfolding t by blast
qed

text \<open>
  Claim C4. With both artifacts loaded, submitting a text of which \<open>strip\<close> leaves
  nothing shows the warning and the history section and nothing else: no artifact is
  called, no error is shown, no exception leaves the script, and the history list is the
  one from before.
\<close>

theorem blank_input_warns_only:
  assumes "strip t = []"
  shows "app (Some m, Some vz) t True ss =
           (ss\<lparr>history := Some (history_list ss)\<rparr>,
            St_warning Please_enter_some_text # history_section (history_list ss), None)
       \<and> history_list (fst (app (Some m, Some vz) t True ss)) = history_list ss
       \<and> filter is_inference (fst (snd (app (Some m, Some vz) t True ss))) = []
       \<and> filter is_st_error (fst (snd (app (Some m, Some vz) t True ss))) = []
       \<and> St_warning Please_enter_some_text \<in> set (fst (snd (app (Some m, Some vz) t True ss)))"
proof -
  have e: "app (Some m, Some vz) t True ss =
           (ss\<lparr>history := Some (history_list ss)\<rparr>,
            St_warning Please_enter_some_text # history_section (history_list ss), None)"
    using assms by (simp add: app_def analyze_def)
  show ?thesis
    unfolding e using history_section_quiet [of "history_list ss"] by simp
qed

theorem blank_input_warns_only_witness:
  "strip blank_text = []
   \<and> app (Some scenario_model, Some scenario_vectorizer) blank_text True
         \<lparr>history = Some [earlier_entry]\<rparr> =
       (\<lparr>history = Some [earlier_entry]\<rparr>,
        [St_warning Please_enter_some_text, St_recent_checks,
         St_expander (expander_title earlier_entry) earlier_entry], None)"
  using blank_input_warns_only [OF strip_blank, of scenario_model scenario_vectorizer
      "\<lparr>history = Some [earlier_entry]\<rparr>"] strip_blank
  by (simp add: history_list_def history_section_def recent_checks_def last5_def)

text \<open>
  Claim C5. If \<open>joblib.load\<close> raises for either file, \<open>load_models\<close> returns
  \<open>(None, None)\<close> after showing the loading error, and the run of the script shows the
  "model files not found" error, calls no artifact, leaves the session state as it was
  and ends without an exception, whatever the text and the button.
\<close>

theorem load_failure_error_mode:
  assumes "isl (ensemble_fake_news_model_pkl fs) \<or> isl (tfidf_vectorizer_pkl fs)"
  shows "fst (load_models fs) = (None, None)
       \<and> (\<exists>e. St_error (Error_loading_model_files e) \<in> set (snd (load_models fs)))
       \<and> app (fst (load_models fs)) t b ss = (ss, [St_error Model_files_not_found], None)
       \<and> fst (script fs t b ss) = ss
       \<and> filter is_inference (fst (snd (script fs t b ss))) = []
       \<and> St_error Model_files_not_found \<in> set (fst (snd (script fs t b ss)))
       \<and> snd (snd (script fs t b ss)) = None"
proof -
  have l: "fst (load_models fs) = (None, None)
       \<and> (\<exists>e. St_error (Error_loading_model_files e) \<in> set (snd (load_models fs)))"
    using assms by (auto simp add: load_models_def isl_def split: sum.splits)
  have a: "app (None, None) t b ss = (ss, [St_error Model_files_not_found], None)"
    by (simp add: app_def)
  obtain out0 where lm: "load_models fs = ((None, None), out0)"
    using l by (cases "load_models fs") auto
  have q: "filter is_inference out0 = []" using load_models_quiet [of fs] lm by simp
  have s: "script fs t b ss = (ss, out0 @ [St_error Model_files_not_found], None)"
    by (simp add: script_def lm a)
  show ?thesis using l a s q lm by simp
qed

theorem load_failure_error_mode_witness:
  "isl (ensemble_fake_news_model_pkl missing_storage)
   \<and> fst (load_models missing_storage) = (None, None)
   \<and> fst (script missing_storage headline_real True \<lparr>history = None\<rparr>) = \<lparr>history = None\<rparr>
   \<and> filter is_inference (fst (snd (script missing_storage headline_real True \<lparr>history = None\<rparr>))) = []
   \<and> St_error Model_files_not_found
        \<in> set (fst (snd (script missing_storage headline_real True \<lparr>history = None\<rparr>)))"
proof -
  have h: "isl (ensemble_fake_news_model_pkl missing_storage)
           \<or> isl (tfidf_vectorizer_pkl missing_storage)"
    by (simp add: missing_storage_def)
  show ?thesis
    using load_failure_error_mode [OF h, of headline_real True "\<lparr>history = None\<rparr>"]
    by (simp add: missing_storage_def)
qed





text \<open>
  Claim C8, amended. As stated the claim asks only that \<open>predict_proba\<close> answers a
  two-class distribution, and then it fails: \<open>transform\<close> or \<open>predict\<close> may raise before
  \<open>predict_proba\<close> is called, and \<open>predict_news\<close> returns \<open>None\<close>. What holds, for every
  input text (non-empty or not): if \<open>transform\<close> returns the matrix \<open>v\<close>, \<open>predict\<close>
  answers at least one index for \<open>v\<close>, and the first row \<open>predict_proba\<close> answers for
  \<open>v\<close> is \<open>[p0, p1]\<close> with \<open>p0 + p1\<close> within one millionth of 1, then \<open>predict_news\<close>
  returns a result, its probabilities are that row unchanged, and so their sum is within
  the same tolerance of 1.
\<close>

theorem predict_news_probabilities_pass_through:
  assumes "transform vz [t] = Inr v"
    and "predict m v = Inr (i # is)"
    and "predict_proba m v = Inr ([p0, p1] # rows)"
    and "\<bar>p0 + p1 - 1\<bar> \<le> 1 / 10 ^ 6"
  shows "\<exists>r out. predict_news t m vz = (Some r, out) \<and> probabilities r = [p0, p1]
           \<and> \<bar>probabilities r ! 0 + probabilities r ! 1 - 1\<bar> \<le> 1 / 10 ^ 6"
  using assms(4) by (simp add: predict_news_answered [OF assms(1) assms(2) assms(3)])

theorem predict_news_probabilities_pass_through_witness:
  "transform scenario_vectorizer [headline_fake] = Inr [headline_fake]
   \<and> predict scenario_model [headline_fake] = Inr [0]
   \<and> predict_proba scenario_model [headline_fake] = Inr [[0.77, 0.23]]
   \<and> \<bar>0.77 + 0.23 - 1\<bar> \<le> (1 / 10 ^ 6 :: real)
   \<and> (\<exists>r out. predict_news headline_fake scenario_model scenario_vectorizer = (Some r, out)
         \<and> probabilities r = [0.77, 0.23]
         \<and> \<bar>probabilities r ! 0 + probabilities r ! 1 - 1\<bar> \<le> 1 / 10 ^ 6)"
proof -
  have a: "transform scenario_vectorizer [headline_fake] = Inr [headline_fake]"
    by (simp add: scenario_vectorizer_def)
  have b: "predict scenario_model [headline_fake] = Inr [0]"
    by (simp add: scenario_model_def headlines_differ)
  have c: "predict_proba scenario_model [headline_fake] = Inr [[0.77, 0.23]]"
    by (simp add: scenario_model_def headlines_differ)
  have d: "\<bar>0.77 + 0.23 - 1\<bar> \<le> (1 / 10 ^ 6 :: real)" by simp
  show ?thesis using predict_news_probabilities_pass_through [OF a b c d] a b c d by blast
qed

text \<open>
  The claim as stated fails on the classifier whose \<open>predict\<close> raises while its
  \<open>predict_proba\<close> answers \<open>[0.5, 0.5]\<close> for every matrix: no result is returned.
\<close>

theorem predict_news_probabilities_pass_through_counterexample:
  "headline_real \<noteq> []
   \<and> predict_proba failing_model [headline_real] = Inr [[0.5, 0.5]]
   \<and> \<bar>0.5 + 0.5 - 1\<bar> \<le> (1 / 10 ^ 6 :: real)
   \<and> fst (predict_news headline_real failing_model scenario_vectorizer) = None"
  by (simp add: failing_run) (simp add: failing_model_def headline_real_def lit_def)

text \<open>
  Claim C9, amended. As stated the claim fails: with an index other than 1 the inference
  still ends in the error branch when \<open>predict_proba\<close> raises or answers an empty row.
  What holds: if \<open>transform\<close> returns the matrix \<open>v\<close>, \<open>predict\<close> answers for \<open>v\<close> an
  index \<open>i \<noteq> 1\<close> (0, 2 or any other), and the first row \<open>predict_proba\<close> answers for
  \<open>v\<close> is non-empty, \<open>p0 # ps\<close>, then \<open>predict_news\<close> returns the result with label
  "FAKE", confidence \<open>p0\<close> and that row, after the three artifact calls and without an
  error message.
\<close>

theorem predict_news_other_index_is_fake:
  assumes "transform vz [t] = Inr v"
    and "predict m v = Inr (i # is)"
    and "i \<noteq> 1"
    and "predict_proba m v = Inr ((p0 # ps) # rows)"
  shows "predict_news t m vz =
           (Some \<lparr>prediction = lit ''FAKE'', confidence = p0, probabilities = p0 # ps\<rparr>,
            [Vectorizer_transform [t] (Inr v), Model_predict v (Inr (i # is)),
             Model_predict_proba v (Inr ((p0 # ps) # rows))])
       \<and> filter is_st_error (snd (predict_news t m vz)) = []"
  using assms(3) by (simp add: predict_news_answered [OF assms(1) assms(2) assms(4)])

theorem predict_news_other_index_is_fake_witness:
  "transform scenario_vectorizer [headline_real] = Inr [headline_real]
   \<and> predict multiclass_model [headline_real] = Inr [2] \<and> (2::int) \<noteq> 1
   \<and> predict_proba multiclass_model [headline_real] = Inr [[0.2, 0.3, 0.5]]
   \<and> fst (predict_news headline_real multiclass_model scenario_vectorizer) =
        Some \<lparr>prediction = lit ''FAKE'', confidence = 0.2, probabilities = [0.2, 0.3, 0.5]\<rparr>
   \<and> filter is_st_error (snd (predict_news headline_real multiclass_model scenario_vectorizer)) = []"
proof -
  have a: "transform scenario_vectorizer [headline_real] = Inr [headline_real]"
    by (simp add: scenario_vectorizer_def)
  have b: "predict multiclass_model [headline_real] = Inr [2]"
    by (simp add: multiclass_model_def)
  have c: "(2::int) \<noteq> 1" by simp
  have d: "predict_proba multiclass_model [headline_real] = Inr [[0.2, 0.3, 0.5]]"
    by (simp add: multiclass_model_def)
  show ?thesis using predict_news_other_index_is_fake [OF a b c d] a b d by simp
qed

text \<open>
  The claim as stated fails on a classifier that answers index 2 and whose
  \<open>predict_proba\<close> raises, and on one that answers index 0 and an empty row: each time
  \<open>predict_news\<close> returns \<open>None\<close> and shows the prediction error.
\<close>

theorem predict_news_other_index_is_fake_counterexample:
  "predict no_proba_model [headline_real] = Inr [2] \<and> (2::int) \<noteq> 1
   \<and> fst (predict_news headline_real no_proba_model scenario_vectorizer) = None
   \<and> filter is_st_error (snd (predict_news headline_real no_proba_model scenario_vectorizer)) =
        [St_error (Prediction_error (Exception (lit ''predict_proba is not available'')))]
   \<and> predict empty_row_model [headline_fake] = Inr [0] \<and> (0::int) \<noteq> 1
   \<and> fst (predict_news headline_fake empty_row_model scenario_vectorizer) = None
   \<and> filter is_st_error (snd (predict_news headline_fake empty_row_model scenario_vectorizer)) =
        [St_error (Prediction_error IndexError)]"
  by (simp add: no_proba_run empty_row_run) (simp add: no_proba_model_def empty_row_model_def)

text \<open>
  Claim C10. A successful submission of the non-blank text \<open>t\<close> appends the entry that
  holds \<open>t\<close> itself, not \<open>strip t\<close>, and the result \<open>predict_news\<close> returned; and a run of
  the script changes the history list in no other way: it is the list from before, or
  the list from before with that one entry appended.
\<close>

theorem history_entry_keeps_text:
  "(strip t \<noteq> [] \<and> predict_news t m vz = (Some r, out) \<longrightarrow>
      history (fst (app (Some m, Some vz) t True ss)) =
        Some (history_list ss @ [\<lparr>h_text = t, h_result = r\<rparr>]))
 \<and> (history_list (fst (app (Some m, Some vz) t b ss)) = history_list ss
      \<or> (\<exists>r' out'. b \<and> strip t \<noteq> [] \<and> predict_news t m vz = (Some r', out')
            \<and> history_list (fst (app (Some m, Some vz) t b ss)) =
                history_list ss @ [\<lparr>h_text = t, h_result = r'\<rparr>]))"
proof -
  have h: "history (fst (app (Some m, Some vz) t b ss)) =
             Some (history_list (fst (app (Some m, Some vz) t b ss)))" for b
    by (cases "analyze m vz t b (history_list ss)")
       (auto simp add: app_def split: option.splits)
  show ?thesis
    using analyze_history [of m vz t b "history_list ss"]
    by (auto simp add: h app_history analyze_appends)
qed

theorem history_entry_keeps_text_witness:
  "strip padded_headline \<noteq> [] \<and> strip padded_headline \<noteq> padded_headline
   \<and> history (fst (app (Some scenario_model, Some scenario_vectorizer) padded_headline True
        \<lparr>history = Some [earlier_entry]\<rparr>)) =
       Some [earlier_entry,
             \<lparr>h_text = padded_headline,
              h_result = \<lparr>prediction = lit ''FAKE'', confidence = 0.77,
                           probabilities = [0.77, 0.23]\<rparr>\<rparr>]"
  using history_entry_keeps_text [of padded_headline scenario_model scenario_vectorizer
      "\<lparr>prediction = lit ''FAKE'', confidence = 0.77, probabilities = [0.77, 0.23]\<rparr>"
      "[Vectorizer_transform [padded_headline] (Inr [padded_headline]),
       Model_predict [padded_headline] (Inr [0]),
       Model_predict_proba [padded_headline] (Inr [[0.77, 0.23]])]"
      "\<lparr>history = Some [earlier_entry]\<rparr>" True]
    strip_padded_neq padded_run
  by (simp add: history_list_def)

end
